theory Spec2Isabelle
  imports Main "HOL-Library.Multiset"
begin

section \<open>Data model\<close>

subsection \<open>Rows of the hosted store\<close>

text \<open>
  The persisted shape is the store's schema: a chat holds two participant ids and its
  creation time; a message holds its chat id, sender id, receiver id, content, timestamp
  and read flag; a profile holds a (nullable) username. Identifiers and text are strings,
  timestamps are milliseconds.
\<close>

record chat_row =
  chat_row_id :: string
  user1_id :: string
  user2_id :: string
  created_at :: nat

record msg_row =
  row_id :: string
  chat_id :: string
  sender_id :: string
  receiver_id :: string
  row_content :: string
  row_timestamp :: nat
  row_read :: bool

record profile_row =
  profile_id :: string
  username :: "string option"

record store =
  tbl_chats :: "chat_row list"
  tbl_messages :: "msg_row list"
  tbl_profiles :: "profile_row list"

subsection \<open>Client-side types (\<^verbatim>\<open>src/lib/types.ts\<close>)\<close>

record FileAttachment =
  fa_id :: string
  fa_name :: string
  fa_type :: string
  fa_url :: string
  fa_size :: nat

record MessageType =
  m_id :: string
  senderId :: string
  senderName :: string
  receiverId :: string
  content :: string
  timestamp :: nat
  read :: bool
  attachment :: "FileAttachment option"

record ChatType =
  c_id :: string
  participantId :: string
  participantName :: string
  lastMessage :: "string option"
  lastMessageTime :: "nat option"
  unreadCount :: nat

subsection \<open>Results of the joined chat query\<close>

text \<open>
  \<^verbatim>\<open>select(`*, messages:messages(content, timestamp, read)`)\<close>: every chat row comes
  with the list of its messages, each projected to the three selected columns. A joined
  message object has no other property, so reading \<^verbatim>\<open>msg.receiver_id\<close> on it yields
  \<^verbatim>\<open>undefined\<close> (\<open>None\<close>).
\<close>

record joined_msg =
  j_content :: string
  j_timestamp :: nat
  j_read :: bool

definition j_receiver_id :: "joined_msg \<Rightarrow> string option" where
  "j_receiver_id msg = None"

record chat_joined = chat_row +
  joined_messages :: "joined_msg list"

subsection \<open>Writes sent to the store\<close>

text \<open>The record built by \<^verbatim>\<open>handleSendMessage\<close> in \<^verbatim>\<open>Chat.tsx\<close>; it has these five
  properties and no other.\<close>

record new_message =
  nm_chat_id :: string
  nm_sender_id :: string
  nm_receiver_id :: string
  nm_content :: string
  nm_read :: bool

text \<open>\<^verbatim>\<open>update({ read: true }).eq('id', i)\<close> and \<^verbatim>\<open>update({ read: true }).in('id', ids)\<close>.\<close>

datatype read_update = UpdateReadEq string | UpdateReadIn "string list"

section \<open>The store's primitives\<close>

text \<open>
  The store is an external collaborator. Its primitives are modelled as the client calls
  them: row filters, \<^verbatim>\<open>order\<close>, \<^verbatim>\<open>single\<close>, and the read-flag updates. The store
  returns the messages joined to a chat in an order of its own (no \<^verbatim>\<open>order\<close> is
  requested for them); the model keeps the table's order.
\<close>

definition project_joined :: "msg_row \<Rightarrow> joined_msg" where
  "project_joined m =
     \<lparr>j_content = row_content m, j_timestamp = row_timestamp m, j_read = row_read m\<rparr>"

definition join_messages :: "store \<Rightarrow> chat_row \<Rightarrow> chat_joined" where
  "join_messages st c =
     \<lparr>chat_row_id = chat_row_id c, user1_id = user1_id c, user2_id = user2_id c,
      created_at = created_at c,
      joined_messages =
        map project_joined (filter (\<lambda>m. chat_id m = chat_row_id c) (tbl_messages st))\<rparr>"

text \<open>\<^verbatim>\<open>.or(`user1_id.eq.U,user2_id.eq.U`).order('created_at', { ascending: false })\<close>\<close>

definition select_chats :: "store \<Rightarrow> string \<Rightarrow> chat_joined list" where
  "select_chats st uid =
     map (join_messages st)
       (rev (sort_key created_at
          (filter (\<lambda>c. user1_id c = uid \<or> user2_id c = uid) (tbl_chats st))))"

text \<open>\<^verbatim>\<open>.from('messages').select('*').eq('chat_id', C).order('timestamp', { ascending: true })\<close>\<close>

definition select_messages :: "store \<Rightarrow> string \<Rightarrow> msg_row list" where
  "select_messages st chatId =
     sort_key row_timestamp (filter (\<lambda>m. chat_id m = chatId) (tbl_messages st))"

text \<open>\<^verbatim>\<open>.from('profiles').select('username').eq('id', P).single()\<close> followed by
  \<^verbatim>\<open>data?.username\<close>: \<^verbatim>\<open>data\<close> is null unless exactly one row matches.\<close>

definition single_username :: "profile_row list \<Rightarrow> string \<Rightarrow> string option" where
  "single_username ps pid =
     (case filter (\<lambda>p. profile_id p = pid) ps of [p] \<Rightarrow> username p | _ \<Rightarrow> None)"

text \<open>JavaScript's \<^verbatim>\<open>v || d\<close> on an optional string: undefined, null and the empty
  string are falsy.\<close>

definition js_or :: "string option \<Rightarrow> string \<Rightarrow> string" where
  "js_or v d = (case v of None \<Rightarrow> d | Some s \<Rightarrow> if s = [] then d else s)"

definition mark_read :: "string list \<Rightarrow> store \<Rightarrow> store" where
  "mark_read ids st =
     st\<lparr>tbl_messages :=
          map (\<lambda>m. if row_id m \<in> set ids then m\<lparr>row_read := True\<rparr> else m) (tbl_messages st)\<rparr>"

fun apply_update :: "read_update \<Rightarrow> store \<Rightarrow> store" where
  "apply_update (UpdateReadEq i) st = mark_read [i] st"
| "apply_update (UpdateReadIn ids) st = mark_read ids st"

fun apply_updates :: "read_update list \<Rightarrow> store \<Rightarrow> store" where
  "apply_updates [] st = st"
| "apply_updates (u # us) st = apply_updates us (apply_update u st)"

section \<open>Conversation Index: \<^verbatim>\<open>fetchChats\<close>\<close>

text \<open>The body of the \<^verbatim>\<open>map\<close> callback of \<^verbatim>\<open>fetchChats\<close> (\<^verbatim>\<open>Chat.tsx\<close>, lines 46-73).\<close>

definition processChat :: "profile_row list \<Rightarrow> string \<Rightarrow> chat_joined \<Rightarrow> ChatType" where
  "processChat ps uid chat =
     (let isUser1 = (user1_id chat = uid);
          pId = (if isUser1 then user2_id chat else user1_id chat);
          pName = js_or (single_username ps pId) ''Unknown User'';
          msgs = joined_messages chat;
          lastMsg = (case msgs of [] \<Rightarrow> None | m # _ \<Rightarrow> Some m);
          unread = length (filter (\<lambda>msg. \<not> j_read msg \<and> j_receiver_id msg = Some uid) msgs)
      in \<lparr>c_id = chat_row_id chat, participantId = pId, participantName = pName,
          lastMessage = map_option j_content lastMsg,
          lastMessageTime = map_option j_timestamp lastMsg,
          unreadCount = unread\<rparr>)"

definition processedChats :: "store \<Rightarrow> string \<Rightarrow> ChatType list" where
  "processedChats st uid = map (processChat (tbl_profiles st) uid) (select_chats st uid)"

section \<open>Message Feed and the \<^verbatim>\<open>Chat\<close> page\<close>

text \<open>
  The state of one \<^verbatim>\<open>Chat\<close> page instance together with what surrounds it: the store, the
  authenticated user (if any), the navigation target \<^verbatim>\<open>location.state.activeChatId\<close>, the
  four \<^verbatim>\<open>useState\<close> cells, the filter of the message subscription as it was captured when
  the effect ran, the \<^verbatim>\<open>fetchMessages\<close> calls that are still running, and a log of the
  writes and toasts issued.

  A running \<^verbatim>\<open>fetchMessages\<close> call is suspended at one of its three \<^verbatim>\<open>await\<close>s: at the
  messages query (with the user its closure captured and the conversation asked for), at
  the \<^verbatim>\<open>Promise.all\<close> of the sender lookups (holding the rows the query returned), or at
  the read update (holding the ids it sent).
\<close>

datatype fetch =
    Querying string string
  | LookingUp string string "msg_row list"
  | Updating "string list"

record world =
  db :: store
  user :: "string option"
  nav_activeChatId :: "string option"
  chats :: "ChatType list"
  messages :: "MessageType list"
  activeChat :: "ChatType option"
  isLoading :: bool
  subscribed :: bool
  msg_filter :: "string option"
  in_flight :: "fetch list"
  updates :: "read_update list"
  inserts :: "new_message list"
  toasts :: "string list"

definition formatMessage :: "profile_row list \<Rightarrow> msg_row \<Rightarrow> MessageType" where
  "formatMessage ps message =
     \<lparr>m_id = row_id message, senderId = sender_id message,
      senderName = js_or (single_username ps (sender_id message)) ''Unknown User'',
      receiverId = receiver_id message, content = row_content message,
      timestamp = row_timestamp message, read = row_read message, attachment = None\<rparr>"

text \<open>\<^verbatim>\<open>fetchMessages\<close> up to its first \<^verbatim>\<open>await\<close>: nothing without a user, otherwise the
  query is on its way.\<close>

definition fetchMessages :: "string \<Rightarrow> world \<Rightarrow> world" where
  "fetchMessages chatId w =
     (case user w of None \<Rightarrow> w | Some u \<Rightarrow> w\<lparr>in_flight := in_flight w @ [Querying u chatId]\<rparr>)"

text \<open>
  The \<open>i\<close>-th running \<^verbatim>\<open>fetchMessages\<close> call resumes from the \<^verbatim>\<open>await\<close> it is suspended
  at and runs to its next one (or to its end).
  \<^item> The messages query is answered (\<open>ok\<close>: without error): on an error the call ends
    with a toast; otherwise it holds the rows of the store at that moment and starts one
    sender lookup per row.
  \<^item> The sender lookups have all returned (a failed lookup is a placeholder name, never
    an error; no step here changes the profiles, so it does not matter when each lookup
    read them): the call replaces the feed, and sends the read update if there is
    anything to mark, else it ends.
  \<^item> The read update returns (\<open>ok\<close>: the store applied it): the call ends.
  Nothing in it looks at \<open>activeChat\<close>.
\<close>

definition drop_fetch :: "nat \<Rightarrow> world \<Rightarrow> world" where
  "drop_fetch i w = w\<lparr>in_flight := take i (in_flight w) @ drop (Suc i) (in_flight w)\<rparr>"

definition fetchMessages_step :: "nat \<Rightarrow> bool \<Rightarrow> world \<Rightarrow> world" where
  "fetchMessages_step i ok w =
     (if i < length (in_flight w) then
        (case in_flight w ! i of
           Querying u chatId \<Rightarrow>
             if \<not> ok
             then (drop_fetch i w)
                    \<lparr>toasts := toasts w @ [''Failed to load messages. Please try again later.'']\<rparr>
             else w\<lparr>in_flight :=
                      (in_flight w)[i := LookingUp u chatId (select_messages (db w) chatId)]\<rparr>
         | LookingUp u chatId messagesData \<Rightarrow>
             (let formattedMessages = map (formatMessage (tbl_profiles (db w))) messagesData;
                  w1 = w\<lparr>messages := formattedMessages\<rparr>;
                  unreadMessages =
                    map row_id (filter (\<lambda>msg. \<not> row_read msg \<and> sender_id msg \<noteq> u) messagesData)
              in if length unreadMessages > 0
                 then w1\<lparr>updates := updates w1 @ [UpdateReadIn unreadMessages],
                         in_flight := (in_flight w1)[i := Updating unreadMessages]\<rparr>
                 else drop_fetch i w1)
         | Updating ids \<Rightarrow>
             (drop_fetch i w)\<lparr>db := (if ok then mark_read ids (db w) else db w)\<rparr>)
      else w)"

definition handleChatSelect :: "ChatType \<Rightarrow> world \<Rightarrow> world" where
  "handleChatSelect chat w = fetchMessages (c_id chat) (w\<lparr>activeChat := Some chat\<rparr>)"

text \<open>\<^verbatim>\<open>fetchChats\<close>, run when the store answers the chat query (\<open>ok\<close>: without error).\<close>

definition fetchChats :: "bool \<Rightarrow> world \<Rightarrow> world" where
  "fetchChats ok w =
     (case user w of
        None \<Rightarrow> w\<lparr>isLoading := False\<rparr>
      | Some u \<Rightarrow>
          if \<not> ok
          then w\<lparr>toasts := toasts w @ [''Failed to load chats. Please try again later.''],
                 isLoading := False\<rparr>
          else
            (let pcs = processedChats (db w) u;
                 w1 = w\<lparr>chats := pcs\<rparr>;
                 nav = (case nav_activeChatId w of
                          None \<Rightarrow> None
                        | Some a \<Rightarrow> if a = [] then None else Some a);
                 w2 = (case nav of
                         Some a \<Rightarrow>
                           (case find (\<lambda>chat. c_id chat = a) pcs of
                              Some chatFromState \<Rightarrow>
                                fetchMessages (c_id chatFromState) (w1\<lparr>activeChat := Some chatFromState\<rparr>)
                            | None \<Rightarrow> w1)
                       | None \<Rightarrow>
                           (case pcs of
                              [] \<Rightarrow> w1
                            | first # _ \<Rightarrow> fetchMessages (c_id first) (w1\<lparr>activeChat := Some first\<rparr>)))
             in w2\<lparr>isLoading := False\<rparr>))"

text \<open>
  The effect of the page (dependencies \<^verbatim>\<open>[user, toast, location]\<close>): it calls
  \<^verbatim>\<open>fetchChats\<close> and subscribes to message changes with the filter
  \<^verbatim>\<open>activeChat ? `chat_id=eq.${activeChat.id}` : undefined\<close>, where \<^verbatim>\<open>activeChat\<close> is the
  value of the render the effect belongs to.
\<close>

definition Chat_effect :: "bool \<Rightarrow> world \<Rightarrow> world" where
  "Chat_effect ok w =
     fetchChats ok (w\<lparr>subscribed := True, msg_filter := map_option c_id (activeChat w)\<rparr>)"

datatype pg_event = INSERT msg_row | UPDATE msg_row | DELETE msg_row

text \<open>The callback of the message subscription (\<^verbatim>\<open>Chat.tsx\<close>, lines 144-184).\<close>

definition onMessageChange :: "pg_event \<Rightarrow> bool \<Rightarrow> world \<Rightarrow> world" where
  "onMessageChange payload ok w =
     (let w1 =
        (case payload of
           INSERT new \<Rightarrow>
             (let newMessage =
                    \<lparr>m_id = row_id new, senderId = sender_id new,
                     senderName =
                       js_or (single_username (tbl_profiles (db w)) (sender_id new)) ''Unknown User'',
                     receiverId = receiver_id new, content = row_content new,
                     timestamp = row_timestamp new, read = row_read new, attachment = None\<rparr>;
                  w' = w\<lparr>messages := messages w @ [newMessage]\<rparr>
              in if Some (receiver_id new) = user w \<and> \<not> row_read new
                 then w'\<lparr>updates := updates w' @ [UpdateReadEq (row_id new)],
                         db := mark_read [row_id new] (db w')\<rparr>
                 else w')
         | UPDATE _ \<Rightarrow> w
         | DELETE _ \<Rightarrow> w)
      in fetchChats ok w1)"

text \<open>The store delivers a change to the callback when the subscription's filter lets it
  through; the row is in the store by then.\<close>

definition passes_filter :: "string option \<Rightarrow> msg_row \<Rightarrow> bool" where
  "passes_filter f r = (case f of None \<Rightarrow> True | Some c \<Rightarrow> chat_id r = c)"

definition store_insert :: "msg_row \<Rightarrow> store \<Rightarrow> store" where
  "store_insert r st = st\<lparr>tbl_messages := tbl_messages st @ [r]\<rparr>"

definition message_inserted :: "msg_row \<Rightarrow> bool \<Rightarrow> world \<Rightarrow> world" where
  "message_inserted r ok w =
     (let w0 = w\<lparr>db := store_insert r (db w)\<rparr>
      in if subscribed w0 \<and> passes_filter (msg_filter w0) r
         then onMessageChange (INSERT r) ok w0 else w0)"

section \<open>Composer\<close>

text \<open>\<^verbatim>\<open>handleSendMessage\<close> of \<^verbatim>\<open>Chat.tsx\<close> (\<open>ok\<close>: the store accepted the insert).\<close>

definition Chat_handleSendMessage ::
    "string \<Rightarrow> FileAttachment option \<Rightarrow> bool \<Rightarrow> world \<Rightarrow> world" where
  "Chat_handleSendMessage text att ok w =
     (case user w of
        None \<Rightarrow> w
      | Some u \<Rightarrow>
          (case activeChat w of
             None \<Rightarrow> w
           | Some ac \<Rightarrow>
               (let newMessage =
                      \<lparr>nm_chat_id = c_id ac, nm_sender_id = u, nm_receiver_id = participantId ac,
                       nm_content = text, nm_read = False\<rparr>;
                    w1 = w\<lparr>inserts := inserts w @ [newMessage]\<rparr>
                in if ok then w1
                   else w1\<lparr>toasts := toasts w1 @ [''Failed to send message. Please try again.'']\<rparr>)))"

text \<open>The state of one \<^verbatim>\<open>ChatBox\<close>: the text being typed and the staged attachment.\<close>

record chatbox =
  newMessage :: string
  filePreview :: "FileAttachment option"

text \<open>\<^verbatim>\<open>String.prototype.trim\<close> strips white space and line terminators from both ends;
  of the code units a \<open>char\<close> can hold these are 9 to 13, 32 and 160.\<close>

definition js_whitespace :: "char \<Rightarrow> bool" where
  "js_whitespace c = ((of_char c :: nat) \<in> {9, 10, 11, 12, 13, 32, 160})"

definition js_trim :: "string \<Rightarrow> string" where
  "js_trim s = rev (dropWhile js_whitespace (rev (dropWhile js_whitespace s)))"

text \<open>The picked file, as \<^verbatim>\<open>handleFileChange\<close> reads it, with the object URL and the
  clock reading it is given.\<close>

record picked_file =
  file_name :: string
  file_type :: string
  file_size :: nat

definition handleFileChange :: "picked_file option \<Rightarrow> string \<Rightarrow> string \<Rightarrow> chatbox \<Rightarrow> chatbox" where
  "handleFileChange file fileUrl now_text cb =
     (case file of
        None \<Rightarrow> cb
      | Some f \<Rightarrow>
          cb\<lparr>filePreview :=
               Some \<lparr>fa_id = ''file-'' @ now_text, fa_name = file_name f, fa_type = file_type f,
                     fa_url = fileUrl, fa_size = file_size f\<rparr>\<rparr>)"

text \<open>\<^verbatim>\<open>handleSendMessage\<close> of \<^verbatim>\<open>ChatBox\<close>, with \<^verbatim>\<open>onSendMessage\<close> bound to the page's
  handler as \<^verbatim>\<open>Chat.tsx\<close> binds it.\<close>

definition ChatBox_handleSendMessage :: "bool \<Rightarrow> chatbox \<times> world \<Rightarrow> chatbox \<times> world" where
  "ChatBox_handleSendMessage ok cw =
     (case cw of (cb, w) \<Rightarrow>
        if js_trim (newMessage cb) \<noteq> [] \<or> filePreview cb \<noteq> None
        then (cb\<lparr>newMessage := [], filePreview := None\<rparr>,
              Chat_handleSendMessage (newMessage cb) (filePreview cb) ok w)
        else (cb, w))"

section \<open>Read-State Marker\<close>

text \<open>\<^verbatim>\<open>markMessagesAsRead\<close> of \<^verbatim>\<open>ChatBox\<close>: the update calls one run issues.\<close>

definition markMessagesAsRead ::
    "string option \<Rightarrow> MessageType list \<Rightarrow> string \<Rightarrow> read_update list" where
  "markMessagesAsRead usr msgs chatId =
     (case usr of
        None \<Rightarrow> []
      | Some u \<Rightarrow>
          if length msgs > 0 \<and> chatId \<noteq> []
          then (let unreadMessages = filter (\<lambda>msg. \<not> read msg \<and> senderId msg \<noteq> u) msgs
                in if length unreadMessages > 0
                   then [UpdateReadIn (map m_id unreadMessages)]
                   else [])
          else [])"

subsection \<open>The timers of the marker's effect\<close>

text \<open>
  A pending \<^verbatim>\<open>setTimeout\<close>: its id, the time it is due, and what the callback's closure
  captured. The runtime of one \<^verbatim>\<open>ChatBox\<close>: the clock, the timer table, the id the last
  effect's cleanup will clear, and what the callbacks did so far.
\<close>

record timer =
  timer_id :: nat
  due :: nat
  cl_user :: "string option"
  cl_messages :: "MessageType list"
  cl_chat_id :: string

record marker_rt =
  now :: nat
  next_timer :: nat
  timers :: "timer list"
  cleanup_id :: "nat option"
  marker_runs :: nat
  marker_updates :: "read_update list"

definition clearTimeout :: "nat option \<Rightarrow> timer list \<Rightarrow> timer list" where
  "clearTimeout i ts = (case i of None \<Rightarrow> ts | Some j \<Rightarrow> filter (\<lambda>t. timer_id t \<noteq> j) ts)"

text \<open>
  One run of the effect after \<^verbatim>\<open>[messages, user, chat.id]\<close> changed: the previous run's
  cleanup clears its timer; the body clears \<^verbatim>\<open>timeoutId\<close>, which is still undefined, and
  sets a timer of 500 ms.
\<close>

definition marker_effect ::
    "string option \<Rightarrow> MessageType list \<Rightarrow> string \<Rightarrow> marker_rt \<Rightarrow> marker_rt" where
  "marker_effect usr msgs chatId rt =
     (let ts0 = clearTimeout (cleanup_id rt) (timers rt);
          ts1 = clearTimeout None ts0;
          i = next_timer rt
      in rt\<lparr>timers := ts1 @ [\<lparr>timer_id = i, due = now rt + 500, cl_user = usr,
                                cl_messages = msgs, cl_chat_id = chatId\<rparr>],
             next_timer := Suc i, cleanup_id := Some i\<rparr>)"

text \<open>The clock moves to \<open>t\<close>: the timers due by then fire, earliest first.\<close>

definition advance :: "nat \<Rightarrow> marker_rt \<Rightarrow> marker_rt" where
  "advance t rt =
     (if t < now rt then rt
      else
        (let fired = sort_key due (filter (\<lambda>tm. due tm \<le> t) (timers rt))
         in rt\<lparr>now := t,
                timers := filter (\<lambda>tm. \<not> due tm \<le> t) (timers rt),
                marker_runs := marker_runs rt + length fired,
                marker_updates := marker_updates rt @
                  concat (map (\<lambda>tm. markMessagesAsRead (cl_user tm) (cl_messages tm) (cl_chat_id tm))
                            fired)\<rparr>))"

text \<open>A sequence of changes of the loaded message set, each with the time it happens.\<close>

fun burst ::
    "string option \<Rightarrow> string \<Rightarrow> (nat \<times> MessageType list) list \<Rightarrow> marker_rt \<Rightarrow> marker_rt" where
  "burst usr chatId [] rt = rt"
| "burst usr chatId ((t, msgs) # cs) rt =
     burst usr chatId cs (marker_effect usr msgs chatId (advance t rt))"

definition mounted :: "nat \<Rightarrow> marker_rt" where
  "mounted t0 =
     \<lparr>now = t0, next_timer = 0, timers = [], cleanup_id = None, marker_runs = 0,
      marker_updates = []\<rparr>"

section \<open>Notions the properties are stated with\<close>

text \<open>The unread count of a conversation for a viewer as the specification defines it:
  the number of the conversation's stored messages with the read flag false and the viewer
  as recipient.\<close>

definition unread_for :: "store \<Rightarrow> string \<Rightarrow> string \<Rightarrow> nat" where
  "unread_for st chatId V =
     length (filter (\<lambda>m. chat_id m = chatId \<and> \<not> row_read m \<and> receiver_id m = V) (tbl_messages st))"

text \<open>The loaded messages addressed to a viewer with the read flag false.\<close>

definition addressed_unread :: "string \<Rightarrow> MessageType list \<Rightarrow> MessageType list" where
  "addressed_unread V msgs = filter (\<lambda>m. \<not> read m \<and> receiverId m = V) msgs"

text \<open>The time of a conversation's most recent message, and a conversation list that is
  ordered by it, most recent first.\<close>

definition latest_message_time :: "store \<Rightarrow> string \<Rightarrow> nat" where
  "latest_message_time st chatId =
     fold max (map row_timestamp (filter (\<lambda>m. chat_id m = chatId) (tbl_messages st))) 0"

definition activity_first :: "store \<Rightarrow> ChatType list \<Rightarrow> bool" where
  "activity_first st cs =
     sorted_wrt (\<lambda>a b. latest_message_time st (c_id b) \<le> latest_message_time st (c_id a)) cs"


text \<open>A schedule: running fetches resumed one after the other, each named by its position
  among those running, every store call succeeding.\<close>

fun run_fetches :: "nat list \<Rightarrow> world \<Rightarrow> world" where
  "run_fetches [] w = w"
| "run_fetches (i # rest) w = run_fetches rest (fetchMessages_step i True w)"





text \<open>Changes that follow one another, each less than 500 ms after the one before
  (the first of them after \<open>t\<close>).\<close>

fun within_window :: "nat \<Rightarrow> (nat \<times> 'a) list \<Rightarrow> bool" where
  "within_window t [] = True"
| "within_window t ((t', x) # cs) = (t \<le> t' \<and> t' < t + 500 \<and> within_window t' cs)"

text \<open>The marker's runtime right after a change at time \<open>t\<close>: one timer, due at
  \<open>t + 500\<close>, holding the message set of that change, and nothing has run yet.\<close>

definition armed ::
    "string option \<Rightarrow> string \<Rightarrow> nat \<Rightarrow> MessageType list \<Rightarrow> marker_rt \<Rightarrow> bool" where
  "armed usr chatId t msgs rt =
     (now rt = t \<and> marker_runs rt = 0 \<and> marker_updates rt = [] \<and>
      (\<exists>i. cleanup_id rt = Some i \<and>
           timers rt = [\<lparr>timer_id = i, due = t + 500, cl_user = usr, cl_messages = msgs,
                         cl_chat_id = chatId\<rparr>]))"

section \<open>A small store\<close>

text \<open>Viewer \<open>V\<close> has three conversations: with \<open>P\<close> (the newest conversation), with
  \<open>Q\<close> (who has no profile row) and with \<open>R\<close>.\<close>

definition ex_profiles :: "profile_row list" where
  "ex_profiles =
     [\<lparr>profile_id = ''V'', username = Some ''vera''\<rparr>,
      \<lparr>profile_id = ''P'', username = Some ''paul''\<rparr>,
      \<lparr>profile_id = ''R'', username = Some ''rita''\<rparr>]"

definition ex_chats :: "chat_row list" where
  "ex_chats =
     [\<lparr>chat_row_id = ''cA'', user1_id = ''V'', user2_id = ''P'', created_at = 20\<rparr>,
      \<lparr>chat_row_id = ''cB'', user1_id = ''Q'', user2_id = ''V'', created_at = 10\<rparr>,
      \<lparr>chat_row_id = ''cC'', user1_id = ''V'', user2_id = ''R'', created_at = 5\<rparr>]"

definition ex_m1 :: msg_row where
  "ex_m1 = \<lparr>row_id = ''m1'', chat_id = ''cA'', sender_id = ''P'', receiver_id = ''V'',
            row_content = ''hello'', row_timestamp = 100, row_read = False\<rparr>"

definition ex_m2 :: msg_row where
  "ex_m2 = \<lparr>row_id = ''m2'', chat_id = ''cA'', sender_id = ''P'', receiver_id = ''V'',
            row_content = ''again'', row_timestamp = 200, row_read = False\<rparr>"

definition ex_m3 :: msg_row where
  "ex_m3 = \<lparr>row_id = ''m3'', chat_id = ''cB'', sender_id = ''Q'', receiver_id = ''V'',
            row_content = ''news'', row_timestamp = 300, row_read = False\<rparr>"

definition ex_m4 :: msg_row where
  "ex_m4 = \<lparr>row_id = ''m4'', chat_id = ''cC'', sender_id = ''V'', receiver_id = ''R'',
            row_content = ''ping'', row_timestamp = 50, row_read = False\<rparr>"

text \<open>A message of the conversation with \<open>P\<close> that arrives later.\<close>

definition ex_m5 :: msg_row where
  "ex_m5 = \<lparr>row_id = ''m5'', chat_id = ''cA'', sender_id = ''P'', receiver_id = ''V'',
            row_content = ''later'', row_timestamp = 400, row_read = False\<rparr>"

definition ex_store :: store where
  "ex_store = \<lparr>tbl_chats = ex_chats, tbl_messages = [ex_m1, ex_m2, ex_m3, ex_m4],
               tbl_profiles = ex_profiles\<rparr>"

text \<open>The page of \<open>V\<close> before its effect has run.\<close>

definition ex_world :: world where
  "ex_world =
     \<lparr>db = ex_store, user = Some ''V'', nav_activeChatId = None, chats = [], messages = [],
      activeChat = None, isLoading = True, subscribed = False, msg_filter = None,
      in_flight = [], updates = [], inserts = [], toasts = []\<rparr>"

text \<open>The three entries the Conversation Index produces for \<open>V\<close> on this store.\<close>

definition ex_convA :: ChatType where
  "ex_convA = \<lparr>c_id = ''cA'', participantId = ''P'', participantName = ''paul'',
               lastMessage = Some ''hello'', lastMessageTime = Some 100, unreadCount = 0\<rparr>"

definition ex_convB :: ChatType where
  "ex_convB = \<lparr>c_id = ''cB'', participantId = ''Q'', participantName = ''Unknown User'',
               lastMessage = Some ''news'', lastMessageTime = Some 300, unreadCount = 0\<rparr>"

definition ex_convC :: ChatType where
  "ex_convC = \<lparr>c_id = ''cC'', participantId = ''R'', participantName = ''rita'',
               lastMessage = Some ''ping'', lastMessageTime = Some 50, unreadCount = 0\<rparr>"

text \<open>The page of \<open>V\<close> after its effect ran with no conversation active yet, the
  fetch of the first conversation's messages ran to its end, \<open>V\<close> selected the conversation
  with \<open>Q\<close>, and the fetch of that conversation's messages ran to its end.\<close>

definition ex_viewing_B :: world where
  "ex_viewing_B =
     run_fetches [0, 0, 0]
       (handleChatSelect ex_convB (run_fetches [0, 0, 0] (Chat_effect True ex_world)))"

section \<open>Basic facts\<close>

lemma fetchMessages_updates [simp]: "updates (fetchMessages c w) = updates w"
  by (simp add: fetchMessages_def split: option.splits)

lemma fetchMessages_db [simp]: "db (fetchMessages c w) = db w"
  by (simp add: fetchMessages_def split: option.splits)

lemma fetchMessages_chats [simp]: "chats (fetchMessages c w) = chats w"
  by (simp add: fetchMessages_def split: option.splits)

lemma fetchMessages_messages [simp]: "messages (fetchMessages c w) = messages w"
  by (simp add: fetchMessages_def split: option.splits)

lemma fetchChats_updates [simp]: "updates (fetchChats ok w) = updates w"
  by (simp add: fetchChats_def Let_def split: option.splits list.splits)

lemma fetchChats_db [simp]: "db (fetchChats ok w) = db w"
  by (simp add: fetchChats_def Let_def split: option.splits list.splits)

lemma fetchChats_messages [simp]: "messages (fetchChats ok w) = messages w"
  by (simp add: fetchChats_def Let_def split: option.splits list.splits)

lemma fetchChats_chats:
  "user w = Some u \<Longrightarrow> chats (fetchChats True w) = processedChats (db w) u"
  by (simp add: fetchChats_def Let_def split: option.splits list.splits)

lemma select_chats_participant:
  "chat \<in> set (select_chats st V) \<Longrightarrow> user1_id chat = V \<or> user2_id chat = V"
  by (auto simp: select_chats_def join_messages_def)

lemma processChat_participant:
  assumes "P \<noteq> V"
    and "(user1_id chat = V \<and> user2_id chat = P) \<or> (user1_id chat = P \<and> user2_id chat = V)"
  shows "participantId (processChat ps V chat) = P"
  using assms by (auto simp: processChat_def Let_def)

lemma unreadCount_processChat: "unreadCount (processChat ps uid chat) = 0"
  by (simp add: processChat_def Let_def j_receiver_id_def)

lemma dropWhile_all_iff:
  "(\<forall>x\<in>set (dropWhile P s). P x) \<longleftrightarrow> (\<forall>x\<in>set s. P x)"
proof
  assume L: "\<forall>x\<in>set (dropWhile P s). P x"
  show "\<forall>x\<in>set s. P x"
  proof (rule ccontr)
    assume "\<not> (\<forall>x\<in>set s. P x)"
    then have ne: "dropWhile P s \<noteq> []"
      by (simp add: dropWhile_eq_Nil_conv)
    then have "\<not> P (hd (dropWhile P s))"
      by (rule hd_dropWhile)
    moreover have "hd (dropWhile P s) \<in> set (dropWhile P s)"
      using ne by simp
    ultimately show False
      using L by blast
  qed
next
  assume "\<forall>x\<in>set s. P x"
  then show "\<forall>x\<in>set (dropWhile P s). P x"
    by (blast dest: set_dropWhileD)
qed

lemma js_trim_empty_iff: "js_trim s = [] \<longleftrightarrow> list_all js_whitespace s"
  by (simp add: js_trim_def list_all_iff dropWhile_eq_Nil_conv dropWhile_all_iff)

lemma select_messages_set:
  "set (select_messages st c) = {m \<in> set (tbl_messages st). chat_id m = c}"
  by (auto simp: select_messages_def)

lemma insort_key_map_inv:
  "(\<And>x. f (g x) = f x) \<Longrightarrow> insort_key f (g x) (map g ys) = map g (insort_key f x ys)"
  by (induction ys) auto

lemma sort_key_map_inv:
  "(\<And>x. f (g x) = f x) \<Longrightarrow> sort_key f (map g xs) = map g (sort_key f xs)"
  by (induction xs) (simp_all add: insort_key_map_inv)

text \<open>Marking messages as read changes neither which rows a conversation has nor their
  order.\<close>

lemma select_messages_mark_read:
  "select_messages (mark_read ids st) c =
     map (\<lambda>m. if row_id m \<in> set ids then m\<lparr>row_read := True\<rparr> else m) (select_messages st c)"
proof -
  let ?g = "\<lambda>m. if row_id m \<in> set ids then m\<lparr>row_read := True\<rparr> else m"
  have "filter (\<lambda>m. chat_id m = c) (map ?g (tbl_messages st)) =
        map ?g (filter (\<lambda>m. chat_id m = c) (tbl_messages st))"
    by (induction "tbl_messages st") (auto simp: filter_map comp_def)
  moreover have "sort_key row_timestamp (map ?g xs) = map ?g (sort_key row_timestamp xs)" for xs
    by (rule sort_key_map_inv) simp
  ultimately show ?thesis
    by (simp add: select_messages_def mark_read_def)
qed

lemma select_ids_mark_read:
  "map row_id (select_messages (mark_read ids st) c) = map row_id (select_messages st c)"
  by (simp add: select_messages_mark_read comp_def)

lemma unread_for_zero_iff:
  "unread_for st c V = 0 \<longleftrightarrow>
     (\<forall>m\<in>set (tbl_messages st). chat_id m = c \<and> receiver_id m = V \<longrightarrow> row_read m)"
  by (auto simp: unread_for_def filter_empty_conv)

lemma unread_after_mark:
  assumes "\<forall>m\<in>set (tbl_messages st). chat_id m = c \<and> receiver_id m = V \<and> \<not> row_read m
             \<longrightarrow> row_id m \<in> set ids"
  shows "unread_for (mark_read ids st) c V = 0"
  using assms by (auto simp: unread_for_zero_iff mark_read_def)

lemma marker_ops:
  assumes "chatId \<noteq> []" and "\<exists>m\<in>set msgs. \<not> read m \<and> senderId m \<noteq> V"
  shows "markMessagesAsRead (Some V) msgs chatId =
     [UpdateReadIn (map m_id (filter (\<lambda>m. \<not> read m \<and> senderId m \<noteq> V) msgs))]"
proof -
  from assms(2) have "filter (\<lambda>m. \<not> read m \<and> senderId m \<noteq> V) msgs \<noteq> []"
    by (auto simp: filter_empty_conv)
  moreover from assms(2) have "msgs \<noteq> []" by auto
  ultimately show ?thesis
    using assms(1) by (simp add: markMessagesAsRead_def Let_def)
qed

lemma marker_at_most_one: "length (markMessagesAsRead usr msgs c) \<le> 1"
  by (simp add: markMessagesAsRead_def Let_def split: option.splits)

lemma message_inserted_feed:
  "messages (message_inserted r ok w) =
     (if subscribed w \<and> passes_filter (msg_filter w) r
      then messages w @ [formatMessage (tbl_profiles (db w)) r] else messages w)"
  by (simp add: message_inserted_def onMessageChange_def Let_def formatMessage_def store_insert_def)

lemma select_chats_sorted:
  "sorted_wrt (\<lambda>a b. created_at b \<le> created_at a) (select_chats st V)"
proof -
  let ?cs = "filter (\<lambda>c. user1_id c = V \<or> user2_id c = V) (tbl_chats st)"
  have "sorted (map created_at (sort_key created_at ?cs))"
    by (rule sorted_sort_key)
  then have "sorted_wrt (\<lambda>a b. created_at a \<le> created_at b) (sort_key created_at ?cs)"
    by (simp add: sorted_wrt_map)
  then have "sorted_wrt (\<lambda>a b. created_at b \<le> created_at a) (rev (sort_key created_at ?cs))"
    by (simp add: sorted_wrt_rev)
  then show ?thesis
    by (simp add: select_chats_def sorted_wrt_map join_messages_def)
qed

lemma select_chats_ids:
  "set (map chat_row_id (select_chats st V)) =
     chat_row_id ` {c \<in> set (tbl_chats st). user1_id c = V \<or> user2_id c = V}"
  by (auto simp: select_chats_def join_messages_def image_iff)

lemma processedChats_ids:
  "map c_id (processedChats st V) = map chat_row_id (select_chats st V)"
  by (simp add: processedChats_def processChat_def Let_def)

text \<open>The preview is read off element 0 of the joined messages.\<close>

lemma preview_of_joined:
  "lastMessage (processChat ps V chat) =
     (case joined_messages chat of [] \<Rightarrow> None | m # _ \<Rightarrow> Some (j_content m))"
  "lastMessageTime (processChat ps V chat) =
     (case joined_messages chat of [] \<Rightarrow> None | m # _ \<Rightarrow> Some (j_timestamp m))"
  by (simp_all add: processChat_def Let_def split: list.splits)

subsection \<open>Running fetches\<close>



lemma step_db_ids:
  "map row_id (select_messages (db (fetchMessages_step i ok w)) c) =
   map row_id (select_messages (db w) c)"
  by (simp add: fetchMessages_step_def drop_fetch_def Let_def select_ids_mark_read
      split: fetch.splits)







lemma run_db_ids:
  "map row_id (select_messages (db (run_fetches js w)) c) = map row_id (select_messages (db w) c)"
  by (induction js arbitrary: w) (simp_all add: step_db_ids)








subsection \<open>The marker's timer\<close>

lemma armed_first:
  "t0 \<le> t \<Longrightarrow> armed usr c t msgs (marker_effect usr msgs c (advance t (mounted t0)))"
  by (simp add: armed_def marker_effect_def advance_def mounted_def clearTimeout_def Let_def)

text \<open>A change before the timer is due clears it and sets a new one, due 500 ms after
  the change.\<close>

lemma armed_step:
  assumes "armed usr c t msgs rt" and "t \<le> t'" and "t' < t + 500"
  shows "armed usr c t' msgs' (marker_effect usr msgs' c (advance t' rt))"
  using assms
  by (auto simp: armed_def marker_effect_def advance_def clearTimeout_def Let_def)

lemma armed_burst:
  "armed usr c t msgs rt \<Longrightarrow> within_window t cs \<Longrightarrow>
   armed usr c (fst (last ((t, msgs) # cs))) (snd (last ((t, msgs) # cs))) (burst usr c cs rt)"
proof (induction cs arbitrary: t msgs rt)
  case Nil
  then show ?case by simp
next
  case (Cons ch cs)
  obtain t' msgs' where ch: "ch = (t', msgs')"
    by (cases ch)
  from Cons.prems ch have w: "t \<le> t'" "t' < t + 500" "within_window t' cs"
    by simp_all
  have "armed usr c t' msgs' (marker_effect usr msgs' c (advance t' rt))"
    using Cons.prems(1) w(1,2) by (rule armed_step)
  from Cons.IH [OF this w(3)] show ?case
    by (simp add: ch)
qed

lemma armed_fire:
  assumes "armed usr c t msgs rt"
  shows "marker_runs (advance T rt) = (if t + 500 \<le> T then 1 else 0)"
    and "marker_updates (advance T rt) =
           (if t + 500 \<le> T then markMessagesAsRead usr msgs c else [])"
  using assms by (auto simp: armed_def advance_def Let_def)

subsection \<open>The small store, evaluated\<close>

lemma ex_processedChats: "processedChats ex_store ''V'' = [ex_convA, ex_convB, ex_convC]"
  by (simp add: processedChats_def select_chats_def ex_store_def ex_chats_def join_messages_def
      processChat_def Let_def j_receiver_id_def ex_profiles_def single_username_def js_or_def
      project_joined_def ex_m1_def ex_m2_def ex_m3_def ex_m4_def ex_convA_def ex_convB_def
      ex_convC_def)

lemma ex_chats_loaded: "chats (fetchChats True ex_world) = [ex_convA, ex_convB, ex_convC]"
proof -
  have "user ex_world = Some ''V''" and "db ex_world = ex_store"
    by (simp_all add: ex_world_def)
  then show ?thesis
    using fetchChats_chats [of ex_world "''V''"] by (simp add: ex_processedChats)
qed

lemma ex_unread_for: "unread_for ex_store ''cA'' ''V'' = 2"
  by (simp add: unread_for_def ex_store_def ex_m1_def ex_m2_def ex_m3_def ex_m4_def)

lemma ex_latest:
  "latest_message_time ex_store ''cA'' = 200"
  "latest_message_time ex_store ''cB'' = 300"
  "latest_message_time ex_store ''cC'' = 50"
  by (simp_all add: latest_message_time_def ex_store_def ex_m1_def ex_m2_def ex_m3_def ex_m4_def)


lemma ex_feedA:
  "map (formatMessage ex_profiles) (select_messages ex_store ''cA'') =
     [\<lparr>m_id = ''m1'', senderId = ''P'', senderName = ''paul'', receiverId = ''V'',
       content = ''hello'', timestamp = 100, read = False, attachment = None\<rparr>,
      \<lparr>m_id = ''m2'', senderId = ''P'', senderName = ''paul'', receiverId = ''V'',
       content = ''again'', timestamp = 200, read = False, attachment = None\<rparr>]"
  by (simp add: select_messages_def ex_store_def ex_m1_def ex_m2_def ex_m3_def ex_m4_def
      formatMessage_def ex_profiles_def single_username_def js_or_def)

lemma ex_after_effect:
  "Chat_effect True ex_world =
     ex_world\<lparr>chats := [ex_convA, ex_convB, ex_convC], activeChat := Some ex_convA,
               isLoading := False, subscribed := True, in_flight := [Querying ''V'' ''cA'']\<rparr>"
  by (simp add: Chat_effect_def fetchChats_def Let_def ex_processedChats fetchMessages_def
      ex_world_def ex_convA_def)

lemma ex_viewing_B_facts:
  "map_option c_id (activeChat ex_viewing_B) = Some ''cB''"
  "map m_id (messages ex_viewing_B) = [''m3'']"
  "subscribed ex_viewing_B"
  "msg_filter ex_viewing_B = None"
  "tbl_profiles (db ex_viewing_B) = ex_profiles"
  unfolding ex_viewing_B_def ex_after_effect
  by (simp_all add: fetchMessages_step_def drop_fetch_def Let_def
      handleChatSelect_def fetchMessages_def ex_world_def select_messages_def ex_store_def
      ex_m1_def ex_m2_def ex_m3_def ex_m4_def mark_read_def formatMessage_def ex_convB_def)




section \<open>Conversation Index: unread count\<close>

text \<open>
  Claim C1: for every user V and every conversation in the list produced by
  \<^verbatim>\<open>fetchChats\<close>, the \<^verbatim>\<open>unreadCount\<close> field equals the number of messages of that
  conversation whose read flag is false and whose recipient is V.

  The code counts \<^verbatim>\<open>!msg.read && msg.receiver_id === user.id\<close> over the joined messages,
  but the join selects only \<^verbatim>\<open>content, timestamp, read\<close>, so \<^verbatim>\<open>msg.receiver_id\<close> is
  undefined and the count is 0 whatever the store holds. On the small store, V has two
  unread messages in the conversation with P, and the list reports 0 for every
  conversation.
\<close>

theorem fetchChats_unreadCount_on_unread_store:
  "map unreadCount (chats (fetchChats True ex_world)) = [0, 0, 0] \<and>
   map c_id (chats (fetchChats True ex_world)) = [''cA'', ''cB'', ''cC''] \<and>
   unread_for ex_store ''cA'' ''V'' = 2"
  by (simp add: ex_chats_loaded ex_unread_for ex_convA_def ex_convB_def ex_convC_def)

section \<open>Conversation Index: the other participant\<close>

text \<open>
  Claim C6: for every conversation with participants {A, B} and viewer V in {A, B}, the
  participant displayed by the Conversation Index (name and identity) is the participant
  that is not V, and on failure to look up that participant's profile the name shown is
  the fixed placeholder "Unknown User" rather than the whole list failing.

  With P the participant that is not V: the entry's \<^verbatim>\<open>participantId\<close> is P; its name is
  P's username when the profile lookup yields exactly one row with a non-empty username,
  and "Unknown User" when the lookup does not yield exactly one row; and the list has an
  entry for every conversation the query returned, whatever the lookups gave.
\<close>

theorem other_participant_displayed:
  assumes "P \<noteq> V"
    and "(user1_id chat = V \<and> user2_id chat = P) \<or> (user1_id chat = P \<and> user2_id chat = V)"
  shows "participantId (processChat (tbl_profiles st) V chat) = P
       \<and> ((\<nexists>p. filter (\<lambda>p. profile_id p = P) (tbl_profiles st) = [p]) \<longrightarrow>
            participantName (processChat (tbl_profiles st) V chat) = ''Unknown User'')
       \<and> (\<forall>p n. filter (\<lambda>p. profile_id p = P) (tbl_profiles st) = [p] \<and> username p = Some n
                 \<and> n \<noteq> [] \<longrightarrow>
            participantName (processChat (tbl_profiles st) V chat) = n)
       \<and> (chat \<in> set (select_chats st V) \<longrightarrow>
            processChat (tbl_profiles st) V chat \<in> set (processedChats st V))
       \<and> length (processedChats st V) = length (select_chats st V)"
proof -
  have pid: "participantId (processChat (tbl_profiles st) V chat) = P"
    using assms by (auto simp: processChat_def Let_def)
  have name: "participantName (processChat (tbl_profiles st) V chat) =
      js_or (single_username (tbl_profiles st) P) ''Unknown User''"
    using assms by (auto simp: processChat_def Let_def)
  have none: "(\<nexists>p. filter (\<lambda>p. profile_id p = P) (tbl_profiles st) = [p]) \<Longrightarrow>
      single_username (tbl_profiles st) P = None"
    by (auto simp: single_username_def split: list.splits)
  have some: "filter (\<lambda>p. profile_id p = P) (tbl_profiles st) = [p] \<Longrightarrow>
      single_username (tbl_profiles st) P = username p" for p
    by (simp add: single_username_def)
  show ?thesis
    using pid name none some by (auto simp: js_or_def processedChats_def)
qed

theorem other_participant_displayed_witness:
  "participantId (processChat (tbl_profiles ex_store) ''V''
       \<lparr>chat_row_id = ''cB'', user1_id = ''Q'', user2_id = ''V'', created_at = 10,
        joined_messages = []\<rparr>) = ''Q''
   \<and> participantName (processChat (tbl_profiles ex_store) ''V''
       \<lparr>chat_row_id = ''cB'', user1_id = ''Q'', user2_id = ''V'', created_at = 10,
        joined_messages = []\<rparr>) = ''Unknown User''
   \<and> participantName (processChat (tbl_profiles ex_store) ''V''
       \<lparr>chat_row_id = ''cA'', user1_id = ''V'', user2_id = ''P'', created_at = 20,
        joined_messages = []\<rparr>) = ''paul''"
  using other_participant_displayed [of "''Q''" "''V''"
      "\<lparr>chat_row_id = ''cB'', user1_id = ''Q'', user2_id = ''V'', created_at = 10,
        joined_messages = []\<rparr>" ex_store]
    other_participant_displayed [of "''P''" "''V''"
      "\<lparr>chat_row_id = ''cA'', user1_id = ''V'', user2_id = ''P'', created_at = 20,
        joined_messages = []\<rparr>" ex_store]
  by (simp add: ex_store_def ex_profiles_def)

section \<open>Composer\<close>

text \<open>
  Claim C7: for every submission attempt where the text content is empty or
  whitespace-only and no attachment is staged, the Composer performs no store insert and
  leaves all component state unchanged (a no-op, not an error).

  Submitting leaves the \<^verbatim>\<open>ChatBox\<close> state and the page (its state, the store, and the log
  of inserts, updates and toasts) exactly as they were.
\<close>

theorem blank_submission_is_noop:
  assumes "list_all js_whitespace (newMessage cb)" and "filePreview cb = None"
  shows "ChatBox_handleSendMessage ok (cb, w) = (cb, w)
       \<and> inserts (snd (ChatBox_handleSendMessage ok (cb, w))) = inserts w
       \<and> toasts (snd (ChatBox_handleSendMessage ok (cb, w))) = toasts w"
  using assms by (simp add: ChatBox_handleSendMessage_def js_trim_empty_iff)

theorem blank_submission_is_noop_witness:
  "ChatBox_handleSendMessage True
     (\<lparr>newMessage = '' '', filePreview = None\<rparr>, ex_world\<lparr>activeChat := Some ex_convA\<rparr>)
   = (\<lparr>newMessage = '' '', filePreview = None\<rparr>, ex_world\<lparr>activeChat := Some ex_convA\<rparr>)
   \<and> inserts (snd (ChatBox_handleSendMessage True
        (\<lparr>newMessage = [], filePreview = None\<rparr>, ex_world\<lparr>activeChat := Some ex_convA\<rparr>))) = []"
  using blank_submission_is_noop [of "\<lparr>newMessage = '' '', filePreview = None\<rparr>" True
      "ex_world\<lparr>activeChat := Some ex_convA\<rparr>"]
    blank_submission_is_noop [of "\<lparr>newMessage = [], filePreview = None\<rparr>" True
      "ex_world\<lparr>activeChat := Some ex_convA\<rparr>"]
  by (simp add: js_whitespace_def ex_world_def)

text \<open>
  Claim C8: for every accepted submission by an authenticated user with an active
  conversation, the record inserted by the Composer has exactly: conversation id = the
  active conversation, sender = the current user, recipient = the conversation's other
  participant, the given content, and read = false; the staged attachment metadata, if
  any, is not part of the inserted record.

  One record is inserted, with these five fields (the recipient is the active
  conversation's \<^verbatim>\<open>participantId\<close>, which is the participant other than the user when the
  active conversation is an entry of the Conversation Index); the page's handler does the
  same with and without the attachment it is handed.
\<close>

theorem accepted_submission_record:
  assumes "user w = Some u" and "activeChat w = Some ac"
    and "js_trim (newMessage cb) \<noteq> [] \<or> filePreview cb \<noteq> None"
  shows "inserts (snd (ChatBox_handleSendMessage ok (cb, w))) =
           inserts w @ [\<lparr>nm_chat_id = c_id ac, nm_sender_id = u,
                         nm_receiver_id = participantId ac, nm_content = newMessage cb,
                         nm_read = False\<rparr>]
         \<and> Chat_handleSendMessage (newMessage cb) (filePreview cb) ok w =
           Chat_handleSendMessage (newMessage cb) None ok w
         \<and> (ac = processChat ps u chat \<and> P \<noteq> u
              \<and> ((user1_id chat = u \<and> user2_id chat = P) \<or> (user1_id chat = P \<and> user2_id chat = u))
            \<longrightarrow> participantId ac = P)"
  using assms processChat_participant [of P u chat ps]
  by (auto simp: ChatBox_handleSendMessage_def Chat_handleSendMessage_def Let_def)

theorem accepted_submission_record_witness:
  "inserts (snd (ChatBox_handleSendMessage True
      (handleFileChange (Some \<lparr>file_name = ''a.pdf'', file_type = ''application/pdf'',
                                file_size = 9\<rparr>) ''blob:1'' ''1700''
         \<lparr>newMessage = ''hi'', filePreview = None\<rparr>,
       ex_world\<lparr>activeChat := Some ex_convA\<rparr>))) =
     [\<lparr>nm_chat_id = ''cA'', nm_sender_id = ''V'', nm_receiver_id = ''P'', nm_content = ''hi'',
       nm_read = False\<rparr>]"
  using accepted_submission_record [of "ex_world\<lparr>activeChat := Some ex_convA\<rparr>" "''V''" ex_convA
      "handleFileChange (Some \<lparr>file_name = ''a.pdf'', file_type = ''application/pdf'',
                                file_size = 9\<rparr>) ''blob:1'' ''1700''
         \<lparr>newMessage = ''hi'', filePreview = None\<rparr>" True]
  by (simp add: ex_world_def ex_convA_def handleFileChange_def)

section \<open>Realtime Bridge: marking an arriving message as read\<close>

text \<open>
  Claim C10: for every message-insert change-notification whose payload names the current
  user as recipient with read flag false, the handler immediately issues an update setting
  that message's read flag to true, regardless of whether the message's conversation is
  the currently active one; so a message can become read without its conversation ever
  being opened.

  The handler issues exactly the update \<^verbatim>\<open>update({ read: true }).eq('id', payload.new.id)\<close>,
  for any active conversation (or none) and any conversation of the message, and every
  stored row with that id is read afterwards.
\<close>

theorem insert_for_viewer_is_marked_read:
  assumes "user w = Some u" and "receiver_id new = u" and "\<not> row_read new"
  shows "updates (onMessageChange (INSERT new) ok w) = updates w @ [UpdateReadEq (row_id new)]
       \<and> list_all (\<lambda>m. row_id m \<noteq> row_id new \<or> row_read m)
           (tbl_messages (db (onMessageChange (INSERT new) ok w)))"
  using assms by (auto simp: onMessageChange_def Let_def mark_read_def list_all_iff)

theorem insert_for_viewer_is_marked_read_witness:
  "updates (onMessageChange (INSERT ex_m5) True
      (ex_world\<lparr>db := store_insert ex_m5 ex_store, activeChat := Some ex_convB\<rparr>))
     = [UpdateReadEq ''m5'']
   \<and> chat_id ex_m5 = ''cA'' \<and> c_id ex_convB = ''cB''"
  using insert_for_viewer_is_marked_read [of
      "ex_world\<lparr>db := store_insert ex_m5 ex_store, activeChat := Some ex_convB\<rparr>" "''V''" ex_m5 True]
  by (simp add: ex_world_def ex_m5_def ex_convB_def)

section \<open>Conversation Index: order of the list\<close>

text \<open>
  Claim C9: for every conversation produced by the Conversation Index that has at least
  one message, the last-message preview (content and timestamp) shown for it is taken from
  the most recent message of that conversation, and the list of conversations is ordered
  most recent activity first.

  As stated the claim fails: on the small store the list is cA, cB, cC, although the most
  recent message of cB (at 300) is later than that of cA (at 200).
\<close>

theorem conversations_not_ordered_by_activity:
  "\<not> activity_first ex_store (chats (fetchChats True ex_world))"
  by (simp add: ex_chats_loaded activity_first_def ex_latest ex_convA_def ex_convB_def ex_convC_def)

text \<open>
  Claim C9, amended: the list of conversations holds exactly the conversations the viewer
  takes part in, in the order of the store's answer, which is by conversation creation
  time, newest first.
\<close>

theorem conversations_ordered_by_creation:
  "sorted_wrt (\<lambda>a b. created_at b \<le> created_at a) (select_chats st V)
   \<and> map c_id (processedChats st V) = map chat_row_id (select_chats st V)
   \<and> set (map c_id (processedChats st V)) =
       chat_row_id ` {c \<in> set (tbl_chats st). user1_id c = V \<or> user2_id c = V}"
  using select_chats_sorted [of st V] processedChats_ids [of st V] select_chats_ids [of st V]
  by simp

theorem conversations_ordered_by_creation_witness:
  "map c_id (processedChats ex_store ''V'') = [''cA'', ''cB'', ''cC'']
   \<and> map created_at (select_chats ex_store ''V'') = [20, 10, 5]"
  using conversations_ordered_by_creation [of ex_store "''V''"]
  by (simp add: select_chats_def ex_store_def ex_chats_def join_messages_def
      ex_processedChats [unfolded ex_store_def ex_chats_def] ex_convA_def ex_convB_def ex_convC_def)

section \<open>Message Feed: rapid conversation switches\<close>




section \<open>Realtime Bridge: a message of another conversation arrives\<close>

text \<open>
  Claim C3: for every insert change-notification carrying a message of conversation C1
  that arrives while a different conversation C2 is the active one, the in-memory message
  feed for C2 is unchanged by the event handler, while C1's entry in the conversation list
  is updated (preview and unread count).

  The page subscribed when no conversation was active, so its subscription carries no
  filter, and the effect does not run again when the active conversation changes. With cB
  active and its one message in the feed, a message of cA arrives: the handler appends it
  to the feed.
\<close>

theorem foreign_insert_is_appended_to_feed:
  "map_option c_id (activeChat ex_viewing_B) = Some ''cB''
   \<and> map m_id (messages ex_viewing_B) = [''m3'']
   \<and> chat_id ex_m5 = ''cA''
   \<and> map m_id (messages (message_inserted ex_m5 True ex_viewing_B)) = [''m3'', ''m5'']"
  by (simp add: message_inserted_feed ex_viewing_B_facts passes_filter_def formatMessage_def
      ex_m5_def)

section \<open>Read-State Marker\<close>

text \<open>
  Claim C4: when the Read-State Marker fires for an authenticated viewer V on a loaded
  message set containing unread messages, it issues exactly one batched update whose id
  set is exactly the messages addressed to V with read=false, setting their read flags to
  true; afterwards the conversation's unread count as defined by the spec is 0.

  The loaded messages are those of a conversation of two participants, the viewer V and a
  peer P: each was sent by one of them to the other. The marker selects the unread
  messages V did not send, which on such messages are the unread messages addressed to V.
  One run issues one update, for exactly their ids; and when the loaded set is the
  conversation's stored messages, no stored message of the conversation addressed to V is
  unread once the store has applied the update.
\<close>

theorem marker_issues_one_batch:
  assumes "chatId \<noteq> []" and "P \<noteq> V"
    and "\<forall>m\<in>set msgs. (senderId m = V \<and> receiverId m = P) \<or> (senderId m = P \<and> receiverId m = V)"
    and "addressed_unread V msgs \<noteq> []"
  shows "markMessagesAsRead (Some V) msgs chatId =
           [UpdateReadIn (map m_id (addressed_unread V msgs))]
       \<and> (msgs = map (formatMessage ps) (select_messages st chatId) \<longrightarrow>
            unread_for (apply_updates (markMessagesAsRead (Some V) msgs chatId) st) chatId V = 0)"
proof -
  let ?ids = "map m_id (addressed_unread V msgs)"
  have two: "senderId m \<noteq> V \<longleftrightarrow> receiverId m = V" if "m \<in> set msgs" for m
    using assms(2,3) that by auto
  then have same: "filter (\<lambda>m. \<not> read m \<and> senderId m \<noteq> V) msgs = addressed_unread V msgs"
    unfolding addressed_unread_def by (intro filter_cong) auto
  from assms(4) have "filter (\<lambda>m. \<not> read m \<and> senderId m \<noteq> V) msgs \<noteq> []"
    unfolding same .
  then have ex: "\<exists>m\<in>set msgs. \<not> read m \<and> senderId m \<noteq> V"
    by (auto simp: filter_empty_conv)
  have "markMessagesAsRead (Some V) msgs chatId =
      [UpdateReadIn (map m_id (filter (\<lambda>m. \<not> read m \<and> senderId m \<noteq> V) msgs))]"
    using assms(1) ex by (rule marker_ops)
  then have ops: "markMessagesAsRead (Some V) msgs chatId = [UpdateReadIn ?ids]"
    unfolding same .
  have zero: "unread_for (mark_read ?ids st) chatId V = 0"
    if eq: "msgs = map (formatMessage ps) (select_messages st chatId)"
  proof (rule unread_after_mark, intro ballI impI)
    fix m assume m: "m \<in> set (tbl_messages st)"
      and c: "chat_id m = chatId \<and> receiver_id m = V \<and> \<not> row_read m"
    then have "m \<in> set (select_messages st chatId)"
      by (simp add: select_messages_set)
    then have in_feed: "formatMessage ps m \<in> set msgs"
      using eq by simp
    with c have "formatMessage ps m \<in> set (addressed_unread V msgs)"
      by (simp add: addressed_unread_def formatMessage_def)
    then have "m_id (formatMessage ps m) \<in> set ?ids"
      by (simp only: set_map image_eqI)
    then show "row_id m \<in> set ?ids"
      by (simp add: formatMessage_def)
  qed
  have after: "unread_for (apply_updates (markMessagesAsRead (Some V) msgs chatId) st) chatId V = 0"
    if "msgs = map (formatMessage ps) (select_messages st chatId)"
    using zero [OF that] by (simp only: ops apply_updates.simps apply_update.simps)
  from ops after show ?thesis
    by blast
qed

theorem marker_issues_one_batch_witness:
  "markMessagesAsRead (Some ''V'')
      (map (formatMessage ex_profiles) (select_messages ex_store ''cA'')) ''cA''
     = [UpdateReadIn [''m1'', ''m2'']]
   \<and> unread_for ex_store ''cA'' ''V'' = 2
   \<and> unread_for (apply_updates
        (markMessagesAsRead (Some ''V'')
           (map (formatMessage ex_profiles) (select_messages ex_store ''cA'')) ''cA'') ex_store)
        ''cA'' ''V'' = 0"
  using marker_issues_one_batch [of "''cA''" "''P''" "''V''"
      "map (formatMessage ex_profiles) (select_messages ex_store ''cA'')" ex_profiles ex_store]
  by (simp add: ex_feedA ex_unread_for markMessagesAsRead_def addressed_unread_def)

text \<open>
  Claim C5: for every burst of N \<ge> 1 changes to the loaded message set that all arrive
  within the debounce window of one another, the Read-State Marker performs exactly one
  update call after the last change (trailing edge), not N calls, and each change within
  the window restarts the full delay.

  From the mount on, with each change less than 500 ms after the one before: at any time
  \<open>T\<close> afterwards the marker has run once if 500 ms have passed since the last change and
  not at all otherwise; what it issued is what one run issues on the message set of the
  last change, never more than one update call, and exactly one when that set holds an
  unread message the viewer did not send.
\<close>

theorem debounce_trailing_edge:
  assumes "t0 \<le> t1" and "within_window t1 cs"
  shows "marker_runs (advance T (burst usr c ((t1, m1) # cs) (mounted t0))) =
           (if fst (last ((t1, m1) # cs)) + 500 \<le> T then 1 else 0)
       \<and> marker_updates (advance T (burst usr c ((t1, m1) # cs) (mounted t0))) =
           (if fst (last ((t1, m1) # cs)) + 500 \<le> T
            then markMessagesAsRead usr (snd (last ((t1, m1) # cs))) c else [])
       \<and> length (marker_updates (advance T (burst usr c ((t1, m1) # cs) (mounted t0)))) \<le> 1
       \<and> (usr = Some V \<and> c \<noteq> [] \<and> fst (last ((t1, m1) # cs)) + 500 \<le> T
            \<and> (\<exists>m\<in>set (snd (last ((t1, m1) # cs))). \<not> read m \<and> senderId m \<noteq> V) \<longrightarrow>
          length (marker_updates (advance T (burst usr c ((t1, m1) # cs) (mounted t0)))) = 1)"
proof -
  let ?rt = "burst usr c ((t1, m1) # cs) (mounted t0)"
  let ?tN = "fst (last ((t1, m1) # cs))"
  let ?mN = "snd (last ((t1, m1) # cs))"
  have "armed usr c t1 m1 (marker_effect usr m1 c (advance t1 (mounted t0)))"
    using assms(1) by (rule armed_first)
  then have a: "armed usr c ?tN ?mN ?rt"
    using assms(2) by (simp add: armed_burst del: last.simps)
  have runs: "marker_runs (advance T ?rt) = (if ?tN + 500 \<le> T then 1 else 0)"
    and ups: "marker_updates (advance T ?rt) =
                (if ?tN + 500 \<le> T then markMessagesAsRead usr ?mN c else [])"
    using armed_fire [OF a] by blast+
  have le: "length (marker_updates (advance T ?rt)) \<le> 1"
    unfolding ups using marker_at_most_one [of usr ?mN c] by simp
  have one: "length (marker_updates (advance T ?rt)) = 1"
    if "usr = Some V \<and> c \<noteq> [] \<and> ?tN + 500 \<le> T
        \<and> (\<exists>m\<in>set ?mN. \<not> read m \<and> senderId m \<noteq> V)"
  proof -
    from that have "markMessagesAsRead usr ?mN c =
        [UpdateReadIn (map m_id (filter (\<lambda>m. \<not> read m \<and> senderId m \<noteq> V) ?mN))]"
      using marker_ops [of c ?mN V] by blast
    with that show ?thesis
      unfolding ups by simp
  qed
  from runs ups le one show ?thesis
    by blast
qed

theorem debounce_trailing_edge_witness:
  "marker_updates (advance 900 (burst (Some ''V'') ''cA''
      [(0, []), (100, take 1 (map (formatMessage ex_profiles) (select_messages ex_store ''cA''))),
       (400, map (formatMessage ex_profiles) (select_messages ex_store ''cA''))] (mounted 0)))
     = [UpdateReadIn [''m1'', ''m2'']]
   \<and> marker_runs (advance 900 (burst (Some ''V'') ''cA''
      [(0, []), (100, take 1 (map (formatMessage ex_profiles) (select_messages ex_store ''cA''))),
       (400, map (formatMessage ex_profiles) (select_messages ex_store ''cA''))] (mounted 0)))
     = 1
   \<and> marker_updates (advance 899 (burst (Some ''V'') ''cA''
      [(0, []), (100, take 1 (map (formatMessage ex_profiles) (select_messages ex_store ''cA''))),
       (400, map (formatMessage ex_profiles) (select_messages ex_store ''cA''))] (mounted 0)))
     = []"
  using debounce_trailing_edge [of 0 0
      "[(100, take 1 (map (formatMessage ex_profiles) (select_messages ex_store ''cA''))),
        (400, map (formatMessage ex_profiles) (select_messages ex_store ''cA''))]"
      900 "Some ''V''" "''cA''" "[]" "''V''"]
    debounce_trailing_edge [of 0 0
      "[(100, take 1 (map (formatMessage ex_profiles) (select_messages ex_store ''cA''))),
        (400, map (formatMessage ex_profiles) (select_messages ex_store ''cA''))]"
      899 "Some ''V''" "''cA''" "[]" "''V''"]
  by (simp add: ex_feedA markMessagesAsRead_def)

end
